theory Spec2Isabelle
  imports Complex_Main "HOL-Library.Sublist"
begin

section \<open>Data model\<close>

text \<open>
  \<^verbatim>\<open>src/types/product.ts\<close>: the interface \<^verbatim>\<open>Product\<close> and its extension
  \<^verbatim>\<open>CartItem\<close>. The field \<^verbatim>\<open>id\<close> is called \<open>id_of\<close> here, since \<open>id\<close> is the
  identity function of HOL. Nullable strings are options. The \<^verbatim>\<open>number\<close> fields
  \<^verbatim>\<open>stock\<close> and \<^verbatim>\<open>quantity\<close> hold integers (the table column is \<^verbatim>\<open>INTEGER\<close>, the
  quantities only ever change by one); \<^verbatim>\<open>price\<close> is the exact two-digit decimal of
  the table column \<^verbatim>\<open>DECIMAL(10, 2)\<close>, a rational number, so the rounding of
  binary floating point is outside this model.
\<close>

record Product =
  id_of :: string
  name :: string
  description :: "string option"
  price :: rat
  image_url :: "string option"
  category :: "string option"
  stock :: int
  created_at :: string
  updated_at :: string

record CartItem = Product +
  quantity :: int

text \<open>The object \<^verbatim>\<open>{ ...p, quantity: n }\<close>: the fields of the product \<open>p\<close> and a quantity.\<close>

definition lineItem :: "Product \<Rightarrow> int \<Rightarrow> CartItem" where
  "lineItem p n = Product.extend p (CartItem.fields n)"

section \<open>Cart store\<close>

text \<open>
  Modelled from the spec: the cart store \<^verbatim>\<open>src/contexts/CartContext.tsx\<close> is
  imported by \<^verbatim>\<open>Cart.tsx\<close>, \<^verbatim>\<open>ProductCard.tsx\<close> and the detail page, but the file
  itself is missing from the sources; only its interface \<^verbatim>\<open>CartContextType\<close> is
  quoted in the architecture notes. The six operations below follow section 4.1
  of the specification. The cart is the ordered collection of line items; each
  operation takes the current cart and returns the next one (mutations apply
  synchronously, in issuance order).

  \<^item> \<^verbatim>\<open>addToCart(product)\<close>: if a line item with \<^verbatim>\<open>product.id\<close> exists, increment its
    quantity by 1; otherwise insert a new line item with quantity 1 at the end.
  \<^item> \<^verbatim>\<open>removeFromCart(productId)\<close>: remove the line item with that id, if present.
  \<^item> \<^verbatim>\<open>updateQuantity(productId, newQuantity)\<close>: if \<^verbatim>\<open>newQuantity <= 0\<close>, behave as
    \<^verbatim>\<open>removeFromCart\<close>; otherwise set the line item's quantity to \<^verbatim>\<open>newQuantity\<close>.
  \<^item> \<^verbatim>\<open>clearCart()\<close>: empty the collection.
  \<^item> \<^verbatim>\<open>getCartTotal()\<close>: the sum over all line items of \<^verbatim>\<open>price * quantity\<close>.
  \<^item> \<^verbatim>\<open>getCartCount()\<close>: the sum of \<^verbatim>\<open>quantity\<close> across all line items.
\<close>

definition addToCart :: "Product \<Rightarrow> CartItem list \<Rightarrow> CartItem list" where
  "addToCart product cart =
     (if list_ex (\<lambda>item. id_of item = id_of product) cart
      then map (\<lambda>item. if id_of item = id_of product
                         then item\<lparr>CartItem.quantity := CartItem.quantity item + 1\<rparr> else item) cart
      else cart @ [lineItem product 1])"

definition removeFromCart :: "string \<Rightarrow> CartItem list \<Rightarrow> CartItem list" where
  "removeFromCart productId cart = filter (\<lambda>item. id_of item \<noteq> productId) cart"

definition updateQuantity :: "string \<Rightarrow> int \<Rightarrow> CartItem list \<Rightarrow> CartItem list" where
  "updateQuantity productId newQuantity cart =
     (if newQuantity \<le> 0 then removeFromCart productId cart
      else map (\<lambda>item. if id_of item = productId
                         then item\<lparr>CartItem.quantity := newQuantity\<rparr> else item) cart)"

definition clearCart :: "CartItem list \<Rightarrow> CartItem list" where
  "clearCart cart = []"

definition getCartTotal :: "CartItem list \<Rightarrow> rat" where
  "getCartTotal cart = foldl (\<lambda>total item. total + price item * of_int (CartItem.quantity item)) 0 cart"

definition getCartCount :: "CartItem list \<Rightarrow> int" where
  "getCartCount cart = foldl (\<lambda>count item. count + CartItem.quantity item) 0 cart"

text \<open>The identity key of the cart: at most one line item per product id.\<close>

definition cart_ids :: "CartItem list \<Rightarrow> string list" where
  "cart_ids cart = map id_of cart"

definition cart_quantity :: "string \<Rightarrow> CartItem list \<Rightarrow> int" where
  "cart_quantity x cart = sum_list (map CartItem.quantity (filter (\<lambda>item. id_of item = x) cart))"

section \<open>Remote catalog query service and user-visible effects\<close>

text \<open>
  A query of the generated client resolves to an object with the two fields
  \<^verbatim>\<open>data\<close> and \<^verbatim>\<open>error\<close>, each possibly \<^verbatim>\<open>null\<close>; the error object is represented
  by its message. What a handler does besides updating component state is
  returned as a list of effects, in the order in which they happen.
\<close>

record 'a response =
  data :: "'a option"
  error :: "string option"

datatype effect =
    ToastError string
  | ConsoleError string string
  | Navigate string

section \<open>Catalog page\<close>

text \<open>
  \<^verbatim>\<open>src/pages/Index.tsx\<close>: the six state variables of the component \<^verbatim>\<open>Index\<close>, with
  their initial values (lines 19 to 24).
\<close>

record Index_state =
  products :: "Product list"
  filteredProducts :: "Product list"
  loading :: bool
  searchQuery :: string
  selectedCategory :: string
  categories :: "string list"

definition Index_initial :: Index_state where
  "Index_initial =
     \<lparr>products = [], filteredProducts = [], loading = True, searchQuery = [],
      selectedCategory = ''all'', categories = []\<rparr>"

text \<open>
  \<^verbatim>\<open>Array.from(new Set(xs))\<close>: a \<^verbatim>\<open>Set\<close> keeps its members in insertion order and
  ignores a value it already holds.
\<close>

definition Set_add :: "'a list \<Rightarrow> 'a \<Rightarrow> 'a list" where
  "Set_add members x = (if x \<in> set members then members else members @ [x])"

definition Array_from_Set :: "'a list \<Rightarrow> 'a list" where
  "Array_from_Set xs = foldl Set_add [] xs"

text \<open>
  \<^verbatim>\<open>filter(Boolean)\<close> on an array of nullable strings keeps the truthy ones:
  neither \<^verbatim>\<open>null\<close> nor the empty string.
\<close>

definition Boolean_str :: "string option \<Rightarrow> bool" where
  "Boolean_str v = (case v of None \<Rightarrow> False | Some s \<Rightarrow> s \<noteq> [])"

definition uniqueCategories :: "Product list option \<Rightarrow> string list" where
  "uniqueCategories d =
     (case d of
        None \<Rightarrow> Array_from_Set []
      | Some ps \<Rightarrow> Array_from_Set (map the (filter Boolean_str (map category ps))))"

text \<open>
  \<^verbatim>\<open>fetchProducts\<close> (lines 34 to 54), given the answer of the remote store:
  \<^verbatim>\<open>setLoading(true)\<close>, then either the error branch (a toast and a console
  message, no state change) or \<^verbatim>\<open>setProducts(data || [])\<close> and
  \<^verbatim>\<open>setCategories(uniqueCategories)\<close>, and in both cases \<^verbatim>\<open>setLoading(false)\<close>.
\<close>

definition fetchProducts :: "Product list response \<Rightarrow> Index_state \<Rightarrow> effect list \<times> Index_state" where
  "fetchProducts r s0 =
     (let s = s0\<lparr>Index_state.loading := True\<rparr> in
      case error r of
        Some e \<Rightarrow>
          ([ToastError ''Failed to load products'', ConsoleError ''Error fetching products:'' e],
           s\<lparr>Index_state.loading := False\<rparr>)
      | None \<Rightarrow>
          ([],
           s\<lparr>products := (case data r of None \<Rightarrow> [] | Some ps \<Rightarrow> ps),
             categories := uniqueCategories (data r),
             Index_state.loading := False\<rparr>))"













section \<open>Product detail page\<close>

text \<open>
  \<^verbatim>\<open>src/pages/ProductDetail.tsx\<close> (\<^verbatim>\<open>src/unnamed/part_001\<close>): the three state
  variables of the component (lines 15 to 17) and what it renders (lines 65 to
  81).
\<close>

record ProductDetail_state =
  product :: "Product option"
  loading :: bool
  quantity :: int

definition ProductDetail_initial :: ProductDetail_state where
  "ProductDetail_initial = \<lparr>product = None, loading = True, quantity = 1\<rparr>"

datatype view = LoadingView | NotFoundView | DetailView Product

definition render :: "ProductDetail_state \<Rightarrow> view" where
  "render s =
     (if ProductDetail_state.loading s then LoadingView
      else case product s of None \<Rightarrow> NotFoundView | Some p \<Rightarrow> DetailView p)"

text \<open>
  \<^verbatim>\<open>fetchProduct\<close> (lines 20 to 40), given the route parameter and the answer of
  the remote store to the single-row query. A missing or empty route parameter
  is falsy and returns at once.
\<close>

definition fetchProduct ::
  "string option \<Rightarrow> Product response \<Rightarrow> ProductDetail_state \<Rightarrow> effect list \<times> ProductDetail_state" where
  "fetchProduct id' r s0 =
     (if id' = None \<or> id' = Some [] then ([], s0)
      else
        let s = s0\<lparr>ProductDetail_state.loading := True\<rparr> in
        case error r of
          Some e \<Rightarrow>
            ([ToastError ''Failed to load product'', ConsoleError ''Error fetching product:'' e],
             s\<lparr>ProductDetail_state.loading := False\<rparr>)
        | None \<Rightarrow>
            (case data r of
               Some d \<Rightarrow> ([], s\<lparr>product := Some d, ProductDetail_state.loading := False\<rparr>)
             | None \<Rightarrow>
                 ([ToastError ''Product not found'', Navigate ''/''],
                  s\<lparr>ProductDetail_state.loading := False\<rparr>)))"

text \<open>The state of the page once the row \<open>p\<close> has arrived for the route parameter \<open>i\<close>.\<close>

definition loaded :: "string \<Rightarrow> Product \<Rightarrow> ProductDetail_state" where
  "loaded i p = snd (fetchProduct (Some i) \<lparr>data = Some p, error = None\<rparr> ProductDetail_initial)"

text \<open>
  \<^verbatim>\<open>handleAddToCart\<close> (lines 45 to 51). The cart store's \<^verbatim>\<open>addToCart\<close> is a
  parameter: the handler calls it in a counting loop.
\<close>

function handleAddToCart_loop ::
  "(Product \<Rightarrow> 'c \<Rightarrow> 'c) \<Rightarrow> Product \<Rightarrow> int \<Rightarrow> int \<Rightarrow> 'c \<Rightarrow> 'c" where
  "handleAddToCart_loop add p q i cart =
     (if i < q then handleAddToCart_loop add p q (i + 1) (add p cart) else cart)"
  by pat_completeness auto
termination
  by (relation "measure (\<lambda>(add, p, q, i, cart). nat (q - i))") auto

declare handleAddToCart_loop.simps [simp del]

definition handleAddToCart ::
  "(Product \<Rightarrow> 'c \<Rightarrow> 'c) \<Rightarrow> ProductDetail_state \<Rightarrow> 'c \<Rightarrow> 'c" where
  "handleAddToCart add s cart =
     (case product s of
        None \<Rightarrow> cart
      | Some p \<Rightarrow> handleAddToCart_loop add p (ProductDetail_state.quantity s) 0 cart)"

text \<open>\<^verbatim>\<open>incrementQuantity\<close> and \<^verbatim>\<open>decrementQuantity\<close> (lines 53 to 63).\<close>

definition incrementQuantity :: "ProductDetail_state \<Rightarrow> ProductDetail_state" where
  "incrementQuantity s =
     (case product s of
        None \<Rightarrow> s
      | Some p \<Rightarrow>
          if ProductDetail_state.quantity s < stock p
          then s\<lparr>ProductDetail_state.quantity := ProductDetail_state.quantity s + 1\<rparr>
          else s)"

definition decrementQuantity :: "ProductDetail_state \<Rightarrow> ProductDetail_state" where
  "decrementQuantity s =
     (if ProductDetail_state.quantity s > 1
      then s\<lparr>ProductDetail_state.quantity := ProductDetail_state.quantity s - 1\<rparr>
      else s)"

text \<open>A sequence of clicks on the two quantity buttons.\<close>

datatype click = Plus | Minus

fun click_step :: "click \<Rightarrow> ProductDetail_state \<Rightarrow> ProductDetail_state" where
  "click_step Plus s = incrementQuantity s"
| "click_step Minus s = decrementQuantity s"

section \<open>Sample rows\<close>

text \<open>
  Three products after the rows that the migration \<^verbatim>\<open>src/unnamed/part_000\<close>
  inserts; the ids and timestamps, generated by the database, are placeholders,
  and the running shoes have no description, as in the example of section 8 of
  the specification.
\<close>

definition headphones :: Product where
  "headphones =
     \<lparr>id_of = ''id-headphones'', name = ''Wireless Headphones'',
      description = Some ''Premium noise-cancelling wireless headphones with 30-hour battery life'',
      price = 199.99, image_url = None, category = Some ''Electronics'', stock = 25,
      created_at = ''t3'', updated_at = ''t3''\<rparr>"

definition runningShoes :: Product where
  "runningShoes =
     \<lparr>id_of = ''id-shoes'', name = ''Running Shoes'',
      description = None,
      price = 129.99, image_url = None, category = Some ''Footwear'', stock = 40,
      created_at = ''t2'', updated_at = ''t2''\<rparr>"

definition yogaMat :: Product where
  "yogaMat =
     \<lparr>id_of = ''id-mat'', name = ''Yoga Mat'',
      description = Some ''Eco-friendly non-slip yoga mat with carrying strap'',
      price = 49.99, image_url = None, category = Some ''Sports'', stock = 50,
      created_at = ''t1'', updated_at = ''t1''\<rparr>"

text \<open>The catalog page holding two products, a search text and a selected category.\<close>

definition catalog :: "string \<Rightarrow> string \<Rightarrow> Index_state" where
  "catalog q c = Index_initial\<lparr>products := [runningShoes, yogaMat], searchQuery := q, selectedCategory := c\<rparr>"




text \<open>
  An answer of the remote store: four rows, one without category, one with the
  empty category, and one product twice.
\<close>

definition fetched :: "Product list response" where
  "fetched =
     \<lparr>data = Some [yogaMat, headphones\<lparr>category := None\<rparr>, runningShoes\<lparr>category := Some []\<rparr>, yogaMat],
      error = None\<rparr>"

section \<open>Properties of the cart store\<close>

lemma cart_ids_removeFromCart:
  "cart_ids (removeFromCart x cart) = filter (\<lambda>i. i \<noteq> x) (cart_ids cart)"
  by (simp add: cart_ids_def removeFromCart_def filter_map comp_def)

lemma removeFromCart_absent:
  "x \<notin> set (cart_ids cart) \<Longrightarrow> removeFromCart x cart = cart"
  unfolding removeFromCart_def cart_ids_def
  by (induction cart) auto

lemma removeFromCart_removes: "x \<notin> set (cart_ids (removeFromCart x cart))"
  by (simp add: cart_ids_removeFromCart)

lemma cart_ids_append: "cart_ids (a @ b) = cart_ids a @ cart_ids b"
  by (simp add: cart_ids_def)

lemma list_ex_ids: "list_ex (\<lambda>item. id_of item = x) cart \<longleftrightarrow> x \<in> set (cart_ids cart)"
  by (auto simp: cart_ids_def list_ex_iff)

lemma id_of_extend: "id_of (Product.extend p e) = id_of p"
  by (simp add: Product.defs)

lemma addToCart_absent:
  "x \<notin> set (cart_ids cart) \<Longrightarrow> id_of p = x \<Longrightarrow> addToCart p cart = cart @ [lineItem p 1]"
  by (simp add: addToCart_def list_ex_ids lineItem_def)

lemma map_bump_absent:
  "x \<notin> set (cart_ids cart) \<Longrightarrow> map (\<lambda>item. if id_of item = x then f item else item) cart = cart"
  unfolding cart_ids_def by (induction cart) auto

lemma addToCart_last:
  "x \<notin> set (cart_ids cart) \<Longrightarrow> id_of it = x \<Longrightarrow> id_of p = x \<Longrightarrow>
   addToCart p (cart @ [it]) = cart @ [it\<lparr>CartItem.quantity := CartItem.quantity it + 1\<rparr>]"
  by (simp add: addToCart_def list_ex_ids cart_ids_append map_bump_absent) (simp add: cart_ids_def)

lemma fold_addToCart_last:
  "x \<notin> set (cart_ids cart) \<Longrightarrow> id_of it = x \<Longrightarrow> \<forall>p\<in>set ps. id_of p = x \<Longrightarrow>
   fold addToCart ps (cart @ [it]) = cart @ [it\<lparr>CartItem.quantity := CartItem.quantity it + int (length ps)\<rparr>]"
proof (induction ps arbitrary: it)
  case Nil
  then show ?case by simp
next
  case (Cons p ps)
  have step: "addToCart p (cart @ [it]) = cart @ [it\<lparr>CartItem.quantity := CartItem.quantity it + 1\<rparr>]"
    using Cons.prems by (intro addToCart_last) auto
  have "fold addToCart ps (cart @ [it\<lparr>CartItem.quantity := CartItem.quantity it + 1\<rparr>])
        = cart @ [it\<lparr>CartItem.quantity := CartItem.quantity it + 1\<rparr>
                    \<lparr>CartItem.quantity := CartItem.quantity (it\<lparr>CartItem.quantity := CartItem.quantity it + 1\<rparr>) + int (length ps)\<rparr>]"
    using Cons.prems by (intro Cons.IH) auto
  with step show ?case by (simp add: add.assoc)
qed

lemma lineItem_quantity: "(lineItem p n)\<lparr>CartItem.quantity := m\<rparr> = lineItem p m"
  by (simp add: lineItem_def Product.defs CartItem.defs)

lemma fold_addToCart_fresh:
  assumes "x \<notin> set (cart_ids cart)" "id_of p = x" "\<forall>q\<in>set ps. id_of q = x"
  shows "fold addToCart (p # ps) cart = cart @ [lineItem p (int (length (p # ps)))]"
proof -
  have "fold addToCart (p # ps) cart = fold addToCart ps (cart @ [lineItem p 1])"
    using assms by (simp add: addToCart_absent)
  also have "\<dots> = cart @ [(lineItem p 1)\<lparr>CartItem.quantity := CartItem.quantity (lineItem p 1) + int (length ps)\<rparr>]"
    using assms by (intro fold_addToCart_last [where x = x]) (auto simp: lineItem_def id_of_extend)
  finally show ?thesis by (simp add: lineItem_quantity) (simp add: lineItem_def Product.defs CartItem.defs)
qed


lemma lineItem_fields:
  "CartItem.quantity (lineItem p n) = n" "id_of (lineItem p n) = id_of p"
  "Product.truncate (lineItem p n) = p"
  by (simp_all add: lineItem_def Product.defs CartItem.defs)

lemma addToCart_present:
  assumes "id_of p \<in> set (cart_ids cart)"
  shows "length (addToCart p cart) = length cart"
    and "cart_ids (addToCart p cart) = cart_ids cart"
    and "i < length cart \<Longrightarrow> addToCart p cart ! i =
          (if id_of (cart ! i) = id_of p
           then (cart ! i)\<lparr>CartItem.quantity := CartItem.quantity (cart ! i) + 1\<rparr> else cart ! i)"
  using assms by (simp_all add: addToCart_def list_ex_ids) (simp add: cart_ids_def)

text \<open>
  Claim C8. \<^verbatim>\<open>removeFromCart(x)\<close> is a total function of the cart (no error value).
  When no line item has id \<open>x\<close> the cart is returned unchanged. In every case no
  line item with id \<open>x\<close> is left, and the line items with any other id are kept,
  in their order and unchanged. Hence a second \<^verbatim>\<open>removeFromCart(x)\<close> changes
  nothing: removing twice gives the same cart as removing once.
\<close>

theorem removeFromCart_idempotent:
  "(x \<notin> set (cart_ids cart) \<longrightarrow> removeFromCart x cart = cart) \<and>
   x \<notin> set (cart_ids (removeFromCart x cart)) \<and>
   filter (\<lambda>item. id_of item \<noteq> x) (removeFromCart x cart)
     = filter (\<lambda>item. id_of item \<noteq> x) cart \<and>
   removeFromCart x (removeFromCart x cart) = removeFromCart x cart"
proof -
  have kept: "filter (\<lambda>item. id_of item \<noteq> x) (removeFromCart x cart)
                = filter (\<lambda>item. id_of item \<noteq> x) cart"
    by (simp add: removeFromCart_def)
  have twice: "removeFromCart x (removeFromCart x cart) = removeFromCart x cart"
    by (rule removeFromCart_absent) (rule removeFromCart_removes)
  show ?thesis
    using removeFromCart_absent [of x cart] removeFromCart_removes [of x cart] kept twice
    by blast
qed

theorem removeFromCart_idempotent_witness:
  "id_of headphones \<notin> set (cart_ids [lineItem yogaMat 1]) \<and>
   removeFromCart (id_of headphones) [lineItem yogaMat 1] = [lineItem yogaMat 1] \<and>
   removeFromCart (id_of yogaMat) (removeFromCart (id_of yogaMat) [lineItem yogaMat 1])
     = removeFromCart (id_of yogaMat) [lineItem yogaMat 1]"
proof -
  have absent: "id_of headphones \<notin> set (cart_ids [lineItem yogaMat 1])"
    by (simp add: cart_ids_def lineItem_fields yogaMat_def headphones_def)
  from removeFromCart_idempotent [of "id_of headphones" "[lineItem yogaMat 1]"]
       removeFromCart_idempotent [of "id_of yogaMat" "[lineItem yogaMat 1]"] absent
  show ?thesis by blast
qed

text \<open>
  Claim C1. \<^verbatim>\<open>addToCart(p)\<close>: when the cart holds a line item with the id of \<open>p\<close>,
  the cart keeps its length and order, the quantity of a line item with that id
  grows by 1 and every other line item is unchanged; otherwise the cart is
  extended at its end by the line item made of \<open>p\<close> with quantity 1.
  Consequently, starting from a cart without a line item for that id, a sequence
  of \<open>n \<ge> 1\<close> calls \<^verbatim>\<open>addToCart\<close> with products of that id (\<open>p\<close> first, then \<open>ps\<close>)
  leaves the cart with exactly one line item for that id, at the end, whose
  quantity is \<open>n\<close>, the number of calls.
\<close>

theorem addToCart_counts:
  "(id_of p \<in> set (cart_ids cart) \<longrightarrow>
      length (addToCart p cart) = length cart \<and>
      (\<forall>i<length cart. addToCart p cart ! i =
          (if id_of (cart ! i) = id_of p
           then (cart ! i)\<lparr>CartItem.quantity := CartItem.quantity (cart ! i) + 1\<rparr>
           else cart ! i))) \<and>
   (id_of p \<notin> set (cart_ids cart) \<longrightarrow>
      addToCart p cart = cart @ [lineItem p 1] \<and>
      ((\<forall>q\<in>set ps. id_of q = id_of p) \<longrightarrow>
         fold addToCart (p # ps) cart = cart @ [lineItem p (int (length (p # ps)))] \<and>
         filter (\<lambda>item. id_of item = id_of p) (fold addToCart (p # ps) cart)
           = [lineItem p (int (length (p # ps)))] \<and>
         cart_quantity (id_of p) (fold addToCart (p # ps) cart) = int (length (p # ps))))"
proof (intro conjI impI allI)
  assume "id_of p \<in> set (cart_ids cart)"
  then show "length (addToCart p cart) = length cart"
    by (rule addToCart_present)
next
  fix i
  assume "id_of p \<in> set (cart_ids cart)" "i < length cart"
  then show "addToCart p cart ! i =
          (if id_of (cart ! i) = id_of p
           then (cart ! i)\<lparr>CartItem.quantity := CartItem.quantity (cart ! i) + 1\<rparr>
           else cart ! i)"
    by (rule addToCart_present)
next
  assume "id_of p \<notin> set (cart_ids cart)"
  then show "addToCart p cart = cart @ [lineItem p 1]"
    by (simp add: addToCart_absent)
next
  assume fresh: "id_of p \<notin> set (cart_ids cart)" and same: "\<forall>q\<in>set ps. id_of q = id_of p"
  then show all: "fold addToCart (p # ps) cart = cart @ [lineItem p (int (length (p # ps)))]"
    by (intro fold_addToCart_fresh [where x = "id_of p"]) auto
  have none: "filter (\<lambda>item. id_of item = id_of p) cart = []"
    using fresh unfolding cart_ids_def by (induction cart) auto
  show "filter (\<lambda>item. id_of item = id_of p) (fold addToCart (p # ps) cart)
           = [lineItem p (int (length (p # ps)))]"
    unfolding all using none by (simp add: lineItem_fields)
  show "cart_quantity (id_of p) (fold addToCart (p # ps) cart) = int (length (p # ps))"
    unfolding all cart_quantity_def using none by (simp add: lineItem_fields)
qed

theorem addToCart_counts_witness:
  "fold addToCart [yogaMat, yogaMat, yogaMat] [lineItem headphones 2]
     = [lineItem headphones 2, lineItem yogaMat 3] \<and>
   cart_quantity (id_of yogaMat) (fold addToCart [yogaMat, yogaMat, yogaMat] [lineItem headphones 2]) = 3"
proof -
  have fresh: "id_of yogaMat \<notin> set (cart_ids [lineItem headphones 2])"
    by (simp add: cart_ids_def lineItem_fields yogaMat_def headphones_def)
  have same: "\<forall>q\<in>set [yogaMat, yogaMat]. id_of q = id_of yogaMat"
    by simp
  have n: "int (length [yogaMat, yogaMat, yogaMat]) = 3"
    by simp
  from addToCart_counts [of yogaMat "[lineItem headphones 2]" "[yogaMat, yogaMat]"] fresh same
  have "fold addToCart [yogaMat, yogaMat, yogaMat] [lineItem headphones 2]
     = [lineItem headphones 2] @ [lineItem yogaMat (int (length [yogaMat, yogaMat, yogaMat]))] \<and>
   cart_quantity (id_of yogaMat) (fold addToCart [yogaMat, yogaMat, yogaMat] [lineItem headphones 2])
     = int (length [yogaMat, yogaMat, yogaMat])"
    by blast
  then show ?thesis
    unfolding n append.simps .
qed

lemma updateQuantity_absent:
  "x \<notin> set (cart_ids cart) \<Longrightarrow> updateQuantity x q cart = cart"
  by (simp add: updateQuantity_def removeFromCart_absent map_bump_absent)

text \<open>
  Claim C2. \<^verbatim>\<open>updateQuantity(productId, newQuantity)\<close> with \<^verbatim>\<open>newQuantity <= 0\<close> gives
  the same cart as \<^verbatim>\<open>removeFromCart(productId)\<close>. With \<^verbatim>\<open>newQuantity > 0\<close> the cart
  keeps its length and order, a line item with that id gets the quantity
  \<^verbatim>\<open>newQuantity\<close>, whatever the stock of its product, and every other line item is
  unchanged. When no line item has that id the cart is unchanged. In particular
  \<^verbatim>\<open>updateQuantity(id, 0)\<close> and \<^verbatim>\<open>updateQuantity(id, -1)\<close> are \<^verbatim>\<open>removeFromCart(id)\<close> and
  leave no line item with that id.
\<close>

theorem updateQuantity_cases:
  "(q \<le> 0 \<longrightarrow> updateQuantity x q cart = removeFromCart x cart) \<and>
   (0 < q \<longrightarrow>
      length (updateQuantity x q cart) = length cart \<and>
      (\<forall>i<length cart. updateQuantity x q cart ! i =
          (if id_of (cart ! i) = x then (cart ! i)\<lparr>CartItem.quantity := q\<rparr> else cart ! i))) \<and>
   (x \<notin> set (cart_ids cart) \<longrightarrow> updateQuantity x q cart = cart) \<and>
   updateQuantity x 0 cart = removeFromCart x cart \<and>
   updateQuantity x (- 1) cart = removeFromCart x cart \<and>
   x \<notin> set (cart_ids (updateQuantity x 0 cart)) \<and>
   x \<notin> set (cart_ids (updateQuantity x (- 1) cart))"
proof -
  have neg: "q \<le> 0 \<longrightarrow> updateQuantity x q cart = removeFromCart x cart"
    by (simp add: updateQuantity_def)
  have pos: "0 < q \<longrightarrow>
      length (updateQuantity x q cart) = length cart \<and>
      (\<forall>i<length cart. updateQuantity x q cart ! i =
          (if id_of (cart ! i) = x then (cart ! i)\<lparr>CartItem.quantity := q\<rparr> else cart ! i))"
    by (simp add: updateQuantity_def)
  have zero: "updateQuantity x 0 cart = removeFromCart x cart"
    and minus: "updateQuantity x (- 1) cart = removeFromCart x cart"
    by (simp_all add: updateQuantity_def)
  show ?thesis
    using neg pos updateQuantity_absent [of x cart q] removeFromCart_removes [of x cart]
    unfolding zero minus by blast
qed

theorem updateQuantity_cases_witness:
  "updateQuantity (id_of yogaMat) 51 [lineItem yogaMat 1] ! 0 = lineItem yogaMat 51 \<and>
   stock (lineItem yogaMat 51) = 50 \<and>
   updateQuantity (id_of yogaMat) 0 [lineItem yogaMat 1] = [] \<and>
   updateQuantity (id_of yogaMat) (- 1) [lineItem yogaMat 1] = [] \<and>
   updateQuantity (id_of headphones) 3 [lineItem yogaMat 1] = [lineItem yogaMat 1]"
proof -
  have absent: "id_of headphones \<notin> set (cart_ids [lineItem yogaMat 1])"
    by (simp add: cart_ids_def lineItem_fields yogaMat_def headphones_def)
  have rm: "removeFromCart (id_of yogaMat) [lineItem yogaMat 1] = []"
    by (simp add: removeFromCart_def lineItem_fields)
  have st: "stock (lineItem yogaMat 51) = 50"
    by (simp add: lineItem_def yogaMat_def Product.defs)
  have "(0::int) < 51" "(0::nat) < length [lineItem yogaMat 1]" by simp_all
  with updateQuantity_cases [of 51 "id_of yogaMat" "[lineItem yogaMat 1]"]
  have "updateQuantity (id_of yogaMat) 51 [lineItem yogaMat 1] ! 0 =
        (if id_of ([lineItem yogaMat 1] ! 0) = id_of yogaMat
         then ([lineItem yogaMat 1] ! 0)\<lparr>CartItem.quantity := 51\<rparr> else [lineItem yogaMat 1] ! 0)"
    by blast
  then have set51: "updateQuantity (id_of yogaMat) 51 [lineItem yogaMat 1] ! 0 = lineItem yogaMat 51"
    by (simp add: lineItem_fields lineItem_quantity)
  from updateQuantity_cases [of 3 "id_of headphones" "[lineItem yogaMat 1]"] absent
  have keep: "updateQuantity (id_of headphones) 3 [lineItem yogaMat 1] = [lineItem yogaMat 1]"
    by blast
  from updateQuantity_cases [of 0 "id_of yogaMat" "[lineItem yogaMat 1]"]
  have "updateQuantity (id_of yogaMat) 0 [lineItem yogaMat 1] = removeFromCart (id_of yogaMat) [lineItem yogaMat 1]"
       "updateQuantity (id_of yogaMat) (- 1) [lineItem yogaMat 1] = removeFromCart (id_of yogaMat) [lineItem yogaMat 1]"
    by blast+
  with rm set51 st keep show ?thesis by simp
qed

lemma foldl_plus_sum_list:
  "foldl (\<lambda>acc item. acc + f item) a xs = a + sum_list (map f xs)"
  for a :: "'a::comm_monoid_add"
  by (induction xs arbitrary: a) (simp_all add: add.assoc)

lemma getCartTotal_as_sum_list:
  "getCartTotal cart = sum_list (map (\<lambda>item. price item * of_int (CartItem.quantity item)) cart)"
  by (simp add: getCartTotal_def foldl_plus_sum_list)

lemma getCartTotal_lineItems:
  "getCartTotal (lineItem p n # cart) = price p * of_int n + getCartTotal cart"
  by (simp add: getCartTotal_as_sum_list lineItem_def Product.defs CartItem.defs)

lemma getCartTotal_append:
  "getCartTotal (cart @ rest) = getCartTotal cart + getCartTotal rest"
  by (simp add: getCartTotal_as_sum_list)

text \<open>
  Claim C3. \<^verbatim>\<open>getCartTotal()\<close> is a function of the current cart alone (the model
  holds no cached total) and equals the sum over all line items of price times
  quantity; for the cart of two headphones at 199.99 and one yoga mat at 49.99
  it is 449.97. The total read after a mutation is the total of the new cart:
  after adding a product that had no line item it has grown by that product's
  price, and after \<^verbatim>\<open>clearCart()\<close> it is 0.
\<close>

theorem getCartTotal_sum:
  "getCartTotal cart = (\<Sum>i<length cart. price (cart ! i) * of_int (CartItem.quantity (cart ! i))) \<and>
   getCartTotal [lineItem headphones 2, lineItem yogaMat 1] = 449.97 \<and>
   (id_of p \<notin> set (cart_ids cart) \<longrightarrow> getCartTotal (addToCart p cart) = getCartTotal cart + price p) \<and>
   getCartTotal (clearCart cart) = 0"
proof (intro conjI impI)
  have "getCartTotal cart = sum_list (map (\<lambda>item. price item * of_int (CartItem.quantity item)) cart)"
    by (rule getCartTotal_as_sum_list)
  also have "\<dots> = (\<Sum>i<length cart. price (cart ! i) * of_int (CartItem.quantity (cart ! i)))"
    by (simp add: sum_list_sum_nth atLeast0LessThan)
  finally show "getCartTotal cart = (\<Sum>i<length cart. price (cart ! i) * of_int (CartItem.quantity (cart ! i)))" .
next
  show empty: "getCartTotal (clearCart cart) = 0"
    by (simp add: getCartTotal_def clearCart_def)
  then have "getCartTotal [] = 0"
    by (simp add: clearCart_def)
  then show "getCartTotal [lineItem headphones 2, lineItem yogaMat 1] = 449.97"
    by (simp add: getCartTotal_lineItems headphones_def yogaMat_def)
next
  assume "id_of p \<notin> set (cart_ids cart)"
  then have "addToCart p cart = cart @ [lineItem p 1]"
    by (simp add: addToCart_absent)
  then show "getCartTotal (addToCart p cart) = getCartTotal cart + price p"
    by (simp add: getCartTotal_append getCartTotal_lineItems) (simp add: getCartTotal_def)
qed

theorem getCartTotal_sum_witness:
  "getCartTotal (addToCart yogaMat [lineItem headphones 2]) = 449.97"
proof -
  have fresh: "id_of yogaMat \<notin> set (cart_ids [lineItem headphones 2])"
    by (simp add: cart_ids_def lineItem_fields yogaMat_def headphones_def)
  have one: "getCartTotal [lineItem headphones 2] = (\<Sum>i<length [lineItem headphones 2].
      price ([lineItem headphones 2] ! i) * of_int (CartItem.quantity ([lineItem headphones 2] ! i)))"
    using getCartTotal_sum [of "[lineItem headphones 2]" yogaMat] by blast
  have "getCartTotal (addToCart yogaMat [lineItem headphones 2])
          = getCartTotal [lineItem headphones 2] + price yogaMat"
    using getCartTotal_sum [of "[lineItem headphones 2]" yogaMat] fresh by blast
  also have "\<dots> = 449.97"
    unfolding one by (simp add: lineItem_def headphones_def yogaMat_def Product.defs CartItem.defs)
  finally show ?thesis .
qed

section \<open>Properties of the product detail page\<close>

lemma cart_ids_addToCart:
  "cart_ids (addToCart p cart) =
     (if id_of p \<in> set (cart_ids cart) then cart_ids cart else cart_ids cart @ [id_of p])"
  by (simp add: addToCart_present addToCart_absent cart_ids_append) (simp add: cart_ids_def lineItem_fields)

lemma distinct_addToCart:
  "distinct (cart_ids cart) \<Longrightarrow> distinct (cart_ids (addToCart p cart))"
  by (simp add: cart_ids_addToCart)

lemma cart_quantity_absent:
  "x \<notin> set (cart_ids cart) \<Longrightarrow> cart_quantity x cart = 0"
  unfolding cart_quantity_def cart_ids_def by (induction cart) auto

lemma cart_quantity_Cons:
  "cart_quantity x (item # cart) =
     (if id_of item = x then CartItem.quantity item else 0) + cart_quantity x cart"
  by (simp add: cart_quantity_def)

lemma addToCart_Cons:
  "addToCart p (item # cart) =
     (if id_of item = id_of p
      then item\<lparr>CartItem.quantity := CartItem.quantity item + 1\<rparr>
             # map (\<lambda>item. if id_of item = id_of p
                         then item\<lparr>CartItem.quantity := CartItem.quantity item + 1\<rparr> else item) cart
      else item # addToCart p cart)"
  by (simp add: addToCart_def)

lemma cart_quantity_addToCart:
  "distinct (cart_ids cart) \<Longrightarrow>
   cart_quantity (id_of p) (addToCart p cart) = cart_quantity (id_of p) cart + 1"
proof (induction cart)
  case Nil
  then show ?case
    by (simp add: addToCart_def cart_quantity_def lineItem_fields)
next
  case (Cons item cart)
  show ?case
  proof (cases "id_of item = id_of p")
    case True
    with Cons.prems have "id_of p \<notin> set (cart_ids cart)"
      by (simp add: cart_ids_def)
    then show ?thesis
      using True by (simp add: addToCart_Cons cart_quantity_Cons map_bump_absent)
  next
    case False
    with Cons show ?thesis
      by (simp add: addToCart_Cons cart_quantity_Cons cart_ids_def)
  qed
qed

lemma funpow_addToCart:
  "distinct (cart_ids cart) \<Longrightarrow>
   distinct (cart_ids ((addToCart p ^^ n) cart)) \<and>
   cart_quantity (id_of p) ((addToCart p ^^ n) cart) = cart_quantity (id_of p) cart + int n"
  by (induction n) (simp_all add: distinct_addToCart cart_quantity_addToCart)

lemma handleAddToCart_loop_funpow:
  "handleAddToCart_loop add p q i cart = (add p ^^ nat (q - i)) cart"
proof (induction add p q i cart rule: handleAddToCart_loop.induct)
  case (1 add p q i cart)
  show ?case
  proof (cases "i < q")
    case True
    then have "nat (q - i) = Suc (nat (q - (i + 1)))"
      by simp
    with True "1.IH" show ?thesis
      by (simp add: funpow_swap1 handleAddToCart_loop.simps [of add p q i cart])
  next
    case False
    then show ?thesis by (simp add: handleAddToCart_loop.simps [of add p q i cart])
  qed
qed

text \<open>
  Claim C10. \<^verbatim>\<open>handleAddToCart\<close> does nothing when no product is loaded. With a
  product \<open>p\<close> loaded and the selected quantity \<open>q\<close>, it applies the store's
  \<^verbatim>\<open>addToCart(p)\<close> exactly \<open>q\<close> times in a row, whatever \<^verbatim>\<open>addToCart\<close> is and whatever
  the stock of \<open>p\<close> (the loop re-checks nothing). With the cart store of section
  4.1 of the specification, on a cart with at most one line item per id, the cart
  quantity for \<open>p\<close> grows by exactly \<open>q\<close>.
\<close>

theorem handleAddToCart_calls:
  "(product s = None \<longrightarrow> handleAddToCart add s cart = cart) \<and>
   (product s = Some p \<longrightarrow>
      handleAddToCart add s cart = (add p ^^ nat (ProductDetail_state.quantity s)) cart) \<and>
   (product s = Some p \<and> 0 \<le> ProductDetail_state.quantity s \<and> distinct (cart_ids c) \<longrightarrow>
      cart_quantity (id_of p) (handleAddToCart addToCart s c)
        = cart_quantity (id_of p) c + ProductDetail_state.quantity s)"
proof (intro conjI impI)
  assume "product s = None"
  then show "handleAddToCart add s cart = cart"
    by (simp add: handleAddToCart_def)
next
  assume "product s = Some p"
  then show "handleAddToCart add s cart = (add p ^^ nat (ProductDetail_state.quantity s)) cart"
    by (simp add: handleAddToCart_def handleAddToCart_loop_funpow)
next
  assume a: "product s = Some p \<and> 0 \<le> ProductDetail_state.quantity s \<and> distinct (cart_ids c)"
  then have "handleAddToCart addToCart s c = (addToCart p ^^ nat (ProductDetail_state.quantity s)) c"
    by (simp add: handleAddToCart_def handleAddToCart_loop_funpow)
  with a show "cart_quantity (id_of p) (handleAddToCart addToCart s c)
        = cart_quantity (id_of p) c + ProductDetail_state.quantity s"
    by (simp add: funpow_addToCart)
qed

theorem handleAddToCart_calls_witness:
  "handleAddToCart addToCart \<lparr>product = Some yogaMat, loading = False, quantity = 2\<rparr> [lineItem yogaMat 49]
     = [lineItem yogaMat 51] \<and>
   cart_quantity (id_of yogaMat)
     (handleAddToCart addToCart \<lparr>product = Some yogaMat, loading = False, quantity = 2\<rparr> [lineItem yogaMat 49])
     = 51"
proof -
  let ?s = "\<lparr>product = Some yogaMat, loading = False, quantity = 2\<rparr>"
  have pre: "product ?s = Some yogaMat \<and> 0 \<le> ProductDetail_state.quantity ?s \<and>
     distinct (cart_ids [lineItem yogaMat 49])"
    by (simp add: cart_ids_def)
  have before: "cart_quantity (id_of yogaMat) [lineItem yogaMat 49] = 49"
    by (simp add: cart_quantity_def lineItem_fields)
  have two: "nat (ProductDetail_state.quantity ?s) = Suc (Suc 0)"
    by simp
  have "handleAddToCart addToCart ?s [lineItem yogaMat 49]
          = (addToCart yogaMat ^^ nat (ProductDetail_state.quantity ?s)) [lineItem yogaMat 49]"
    using handleAddToCart_calls [of ?s addToCart "[lineItem yogaMat 49]" yogaMat "[]"] pre by blast
  also have "\<dots> = [lineItem yogaMat 51]"
    unfolding two by (simp add: addToCart_def lineItem_fields lineItem_quantity)
  finally have res: "handleAddToCart addToCart ?s [lineItem yogaMat 49] = [lineItem yogaMat 51]" .
  have "cart_quantity (id_of yogaMat) (handleAddToCart addToCart ?s [lineItem yogaMat 49])
          = cart_quantity (id_of yogaMat) [lineItem yogaMat 49] + ProductDetail_state.quantity ?s"
    using handleAddToCart_calls [of ?s addToCart "[lineItem yogaMat 49]" yogaMat "[lineItem yogaMat 49]"] pre
    by blast
  with before res show ?thesis by simp
qed


lemma updateQuantity_Cons:
  "0 < n \<Longrightarrow> updateQuantity x n (item # cart) =
     (if id_of item = x then item\<lparr>CartItem.quantity := n\<rparr> else item) # updateQuantity x n cart"
  by (simp add: updateQuantity_def)

lemma cart_quantity_updateQuantity:
  "distinct (cart_ids cart) \<Longrightarrow> x \<in> set (cart_ids cart) \<Longrightarrow> 0 < n \<Longrightarrow>
   cart_quantity x (updateQuantity x n cart) = n"
proof (induction cart)
  case Nil
  then show ?case by (simp add: cart_ids_def)
next
  case (Cons item cart)
  show ?case
  proof (cases "id_of item = x")
    case True
    with Cons.prems have "x \<notin> set (cart_ids cart)"
      by (simp add: cart_ids_def)
    then show ?thesis
      using True Cons.prems(3)
      by (simp add: updateQuantity_Cons cart_quantity_Cons updateQuantity_absent cart_quantity_absent)
  next
    case False
    with Cons show ?thesis
      by (simp add: updateQuantity_Cons cart_quantity_Cons cart_ids_def)
  qed
qed

lemma incrementQuantity_range:
  "product s = Some p \<Longrightarrow> 1 \<le> ProductDetail_state.quantity s \<Longrightarrow>
   ProductDetail_state.quantity s \<le> stock p \<Longrightarrow>
   product (incrementQuantity s) = Some p \<and>
   1 \<le> ProductDetail_state.quantity (incrementQuantity s) \<and>
   ProductDetail_state.quantity (incrementQuantity s) \<le> stock p"
  by (simp add: incrementQuantity_def)

lemma decrementQuantity_range:
  "product s = Some p \<Longrightarrow> 1 \<le> ProductDetail_state.quantity s \<Longrightarrow>
   ProductDetail_state.quantity s \<le> stock p \<Longrightarrow>
   product (decrementQuantity s) = Some p \<and>
   1 \<le> ProductDetail_state.quantity (decrementQuantity s) \<and>
   ProductDetail_state.quantity (decrementQuantity s) \<le> stock p"
  by (simp add: decrementQuantity_def)

lemma clicks_range:
  "product s = Some p \<Longrightarrow> 1 \<le> ProductDetail_state.quantity s \<Longrightarrow>
   ProductDetail_state.quantity s \<le> stock p \<Longrightarrow>
   product (fold click_step cs s) = Some p \<and>
   1 \<le> ProductDetail_state.quantity (fold click_step cs s) \<and>
   ProductDetail_state.quantity (fold click_step cs s) \<le> stock p"
proof (induction cs arbitrary: s)
  case Nil
  then show ?case by simp
next
  case (Cons c cs)
  have "product (click_step c s) = Some p \<and>
        1 \<le> ProductDetail_state.quantity (click_step c s) \<and>
        ProductDetail_state.quantity (click_step c s) \<le> stock p"
    using Cons.prems by (cases c) (simp_all add: incrementQuantity_range decrementQuantity_range)
  then show ?case
    using Cons.IH [of "click_step c s"] by simp
qed

lemma loaded_state:
  "i \<noteq> [] \<Longrightarrow> loaded i p = \<lparr>product = Some p, loading = False, quantity = 1\<rparr>"
  by (simp add: loaded_def fetchProduct_def ProductDetail_initial_def)

text \<open>
  Claim C9. On the detail page the selected quantity starts at 1, and is 1
  when the product has arrived. For a loaded product with stock at least 1,
  every sequence of clicks on the increment and decrement buttons keeps
  \<open>1 \<le> quantity \<le> stock\<close>. \<^verbatim>\<open>incrementQuantity\<close> changes nothing when
  \<open>quantity \<ge> stock\<close> and adds one otherwise; \<^verbatim>\<open>decrementQuantity\<close> changes nothing
  when \<open>quantity \<le> 1\<close> and subtracts one otherwise. The cart store of section 4.1
  of the specification has no such clamp: \<^verbatim>\<open>addToCart\<close> raises the cart quantity
  by one and \<^verbatim>\<open>updateQuantity\<close> sets any positive quantity, whatever the stock.
\<close>

theorem quantity_within_stock:
  "ProductDetail_state.quantity ProductDetail_initial = 1 \<and>
   (i \<noteq> [] \<and> 1 \<le> stock p \<longrightarrow>
      ProductDetail_state.quantity (loaded i p) = 1 \<and>
      1 \<le> ProductDetail_state.quantity (fold click_step cs (loaded i p)) \<and>
      ProductDetail_state.quantity (fold click_step cs (loaded i p)) \<le> stock p) \<and>
   (product s = Some p \<and> 1 \<le> ProductDetail_state.quantity s \<and>
    ProductDetail_state.quantity s \<le> stock p \<longrightarrow>
      1 \<le> ProductDetail_state.quantity (fold click_step cs s) \<and>
      ProductDetail_state.quantity (fold click_step cs s) \<le> stock p) \<and>
   (product s = Some p \<and> stock p \<le> ProductDetail_state.quantity s \<longrightarrow> incrementQuantity s = s) \<and>
   (product s = Some p \<and> ProductDetail_state.quantity s < stock p \<longrightarrow>
      incrementQuantity s = s\<lparr>ProductDetail_state.quantity := ProductDetail_state.quantity s + 1\<rparr>) \<and>
   (ProductDetail_state.quantity s \<le> 1 \<longrightarrow> decrementQuantity s = s) \<and>
   (1 < ProductDetail_state.quantity s \<longrightarrow>
      decrementQuantity s = s\<lparr>ProductDetail_state.quantity := ProductDetail_state.quantity s - 1\<rparr>) \<and>
   (distinct (cart_ids cart) \<longrightarrow>
      cart_quantity (id_of p) (addToCart p cart) = cart_quantity (id_of p) cart + 1 \<and>
      (0 < n \<longrightarrow> cart_quantity (id_of p) (updateQuantity (id_of p) n (addToCart p cart)) = n))"
proof (intro conjI impI)
  show "ProductDetail_state.quantity ProductDetail_initial = 1"
    by (simp add: ProductDetail_initial_def)
next
  assume a: "i \<noteq> [] \<and> 1 \<le> stock p"
  then show "ProductDetail_state.quantity (loaded i p) = 1"
    by (simp add: loaded_state)
  from a have "product (loaded i p) = Some p" "1 \<le> ProductDetail_state.quantity (loaded i p)"
    "ProductDetail_state.quantity (loaded i p) \<le> stock p"
    by (simp_all add: loaded_state)
  then have "product (fold click_step cs (loaded i p)) = Some p \<and>
   1 \<le> ProductDetail_state.quantity (fold click_step cs (loaded i p)) \<and>
   ProductDetail_state.quantity (fold click_step cs (loaded i p)) \<le> stock p"
    by (rule clicks_range)
  then show "1 \<le> ProductDetail_state.quantity (fold click_step cs (loaded i p))"
    and "ProductDetail_state.quantity (fold click_step cs (loaded i p)) \<le> stock p"
    by simp_all
next
  assume "product s = Some p \<and> 1 \<le> ProductDetail_state.quantity s \<and>
    ProductDetail_state.quantity s \<le> stock p"
  then have "product (fold click_step cs s) = Some p \<and>
   1 \<le> ProductDetail_state.quantity (fold click_step cs s) \<and>
   ProductDetail_state.quantity (fold click_step cs s) \<le> stock p"
    by (intro clicks_range) simp_all
  then show "1 \<le> ProductDetail_state.quantity (fold click_step cs s)"
    and "ProductDetail_state.quantity (fold click_step cs s) \<le> stock p"
    by simp_all
next
  assume "product s = Some p \<and> stock p \<le> ProductDetail_state.quantity s"
  then show "incrementQuantity s = s"
    by (simp add: incrementQuantity_def)
next
  assume "product s = Some p \<and> ProductDetail_state.quantity s < stock p"
  then show "incrementQuantity s = s\<lparr>ProductDetail_state.quantity := ProductDetail_state.quantity s + 1\<rparr>"
    by (simp add: incrementQuantity_def)
next
  assume "ProductDetail_state.quantity s \<le> 1"
  then show "decrementQuantity s = s"
    by (simp add: decrementQuantity_def)
next
  assume "1 < ProductDetail_state.quantity s"
  then show "decrementQuantity s = s\<lparr>ProductDetail_state.quantity := ProductDetail_state.quantity s - 1\<rparr>"
    by (simp add: decrementQuantity_def)
next
  assume d: "distinct (cart_ids cart)"
  then show "cart_quantity (id_of p) (addToCart p cart) = cart_quantity (id_of p) cart + 1"
    by (rule cart_quantity_addToCart)
  show "cart_quantity (id_of p) (updateQuantity (id_of p) n (addToCart p cart)) = n" if "0 < n"
    using d that
    by (intro cart_quantity_updateQuantity) (simp_all add: cart_ids_addToCart)
qed


theorem quantity_within_stock_witness:
  "ProductDetail_state.quantity (fold click_step [Plus, Plus, Plus, Minus, Minus, Minus, Minus]
      (loaded ''id-mat'' (yogaMat\<lparr>stock := 2\<rparr>))) = 1 \<and>
   ProductDetail_state.quantity (fold click_step [Plus, Plus, Plus]
      (loaded ''id-mat'' (yogaMat\<lparr>stock := 2\<rparr>))) = 2 \<and>
   cart_quantity (id_of yogaMat) (addToCart yogaMat [lineItem yogaMat 50]) = 51"
proof -
  let ?p = "yogaMat\<lparr>stock := 2\<rparr>"
  have pre: "''id-mat'' \<noteq> [] \<and> 1 \<le> stock ?p"
    by simp
  from quantity_within_stock [of "''id-mat''" ?p "[Plus, Plus, Plus, Minus, Minus, Minus, Minus]"] pre
  have range1: "1 \<le> ProductDetail_state.quantity
      (fold click_step [Plus, Plus, Plus, Minus, Minus, Minus, Minus] (loaded ''id-mat'' ?p))"
    by blast
  from quantity_within_stock [of "''id-mat''" ?p "[Plus, Plus, Plus]"] pre
  have range2: "ProductDetail_state.quantity (fold click_step [Plus, Plus, Plus] (loaded ''id-mat'' ?p)) \<le> stock ?p"
    by blast
  have v1: "ProductDetail_state.quantity
      (fold click_step [Plus, Plus, Plus, Minus, Minus, Minus, Minus] (loaded ''id-mat'' ?p)) \<le> 1"
    by (simp add: loaded_state incrementQuantity_def decrementQuantity_def)
  have v2: "2 \<le> ProductDetail_state.quantity (fold click_step [Plus, Plus, Plus] (loaded ''id-mat'' ?p))"
    by (simp add: loaded_state incrementQuantity_def decrementQuantity_def)
  have d: "distinct (cart_ids [lineItem yogaMat 50])"
    by (simp add: cart_ids_def)
  have before: "cart_quantity (id_of yogaMat) [lineItem yogaMat 50] = 50"
    by (simp add: cart_quantity_def lineItem_fields)
  from quantity_within_stock [of _ yogaMat _ _ "[lineItem yogaMat 50]"] d
  have "cart_quantity (id_of yogaMat) (addToCart yogaMat [lineItem yogaMat 50])
          = cart_quantity (id_of yogaMat) [lineItem yogaMat 50] + 1"
    by blast
  with before range1 range2 v1 v2 show ?thesis by simp
qed

section \<open>Properties of the catalog page\<close>
























section \<open>Properties of the two queries\<close>

lemma catalog_fields:
  "products (catalog q c) = [runningShoes, yogaMat]"
  "searchQuery (catalog q c) = q"
  "selectedCategory (catalog q c) = c"
  by (simp_all add: catalog_def)

lemma foldl_Set_add:
  "set (foldl Set_add acc xs) = set acc \<union> set xs \<and>
   (distinct acc \<longrightarrow> distinct (foldl Set_add acc xs))"
  by (induction xs arbitrary: acc) (auto simp: Set_add_def)

lemma Array_from_Set_set: "set (Array_from_Set xs) = set xs"
  and Array_from_Set_distinct: "distinct (Array_from_Set xs)"
  using foldl_Set_add [of "[]" xs] by (simp_all add: Array_from_Set_def)

lemma truthy_categories:
  "set (map the (filter Boolean_str (map category ps)))
     = {c. c \<noteq> [] \<and> (\<exists>p\<in>set ps. category p = Some c)}"
  by (induction ps) (auto simp: Boolean_str_def split: option.splits)

text \<open>
  Claim C5. When the product-list query answers with an error, \<^verbatim>\<open>fetchProducts\<close>
  leaves the whole page state as it was, except that the loading flag is
  cleared: the product list, the category list and the filtered list are
  unchanged, and the failure is shown as a toast. The function is total (no
  crash). The loading flag is cleared in every outcome, success included.
\<close>

theorem fetchProducts_failure:
  "(error r \<noteq> None \<longrightarrow>
      snd (fetchProducts r s) = s\<lparr>Index_state.loading := False\<rparr> \<and>
      products (snd (fetchProducts r s)) = products s \<and>
      categories (snd (fetchProducts r s)) = categories s \<and>
      filteredProducts (snd (fetchProducts r s)) = filteredProducts s \<and>
      ToastError ''Failed to load products'' \<in> set (fst (fetchProducts r s))) \<and>
   Index_state.loading (snd (fetchProducts r s)) = False"
  by (cases "error r") (simp_all add: fetchProducts_def)

theorem fetchProducts_failure_witness:
  "products (snd (fetchProducts \<lparr>data = None, error = Some ''network''\<rparr> (catalog [] ''all'')))
     = [runningShoes, yogaMat] \<and>
   Index_state.loading (snd (fetchProducts \<lparr>data = None, error = Some ''network''\<rparr> (catalog [] ''all''))) = False \<and>
   Index_state.loading (snd (fetchProducts \<lparr>data = Some [headphones], error = None\<rparr> (catalog [] ''all''))) = False"
proof -
  have e: "error \<lparr>data = None, error = Some ''network''\<rparr> \<noteq> None"
    by simp
  from fetchProducts_failure [of "\<lparr>data = None, error = Some ''network''\<rparr>" "catalog [] ''all''"] e
  have "products (snd (fetchProducts \<lparr>data = None, error = Some ''network''\<rparr> (catalog [] ''all'')))
          = products (catalog [] ''all'')"
    and "Index_state.loading (snd (fetchProducts \<lparr>data = None, error = Some ''network''\<rparr> (catalog [] ''all''))) = False"
    by blast+
  moreover
  from fetchProducts_failure [of "\<lparr>data = Some [headphones], error = None\<rparr>" "catalog [] ''all''"]
  have "Index_state.loading (snd (fetchProducts \<lparr>data = Some [headphones], error = None\<rparr> (catalog [] ''all''))) = False"
    by blast
  ultimately show ?thesis
    by (simp add: catalog_fields)
qed

text \<open>
  Claim C6. When the query succeeds with the rows \<open>ps\<close>, \<^verbatim>\<open>fetchProducts\<close> replaces
  the product list by \<open>ps\<close>, and the category list holds exactly the non-empty
  category values that occur in \<open>ps\<close>, each once: a product whose category is
  absent or empty contributes nothing.
\<close>

theorem fetchProducts_success:
  "error r = None \<and> data r = Some ps \<longrightarrow>
     products (snd (fetchProducts r s)) = ps \<and>
     set (categories (snd (fetchProducts r s)))
       = {c. c \<noteq> [] \<and> (\<exists>p\<in>set ps. category p = Some c)} \<and>
     distinct (categories (snd (fetchProducts r s)))"
proof
  assume ok: "error r = None \<and> data r = Some ps"
  then have prods: "products (snd (fetchProducts r s)) = ps"
    by (simp add: fetchProducts_def)
  from ok have cats: "categories (snd (fetchProducts r s))
      = Array_from_Set (map the (filter Boolean_str (map category ps)))"
    by (simp add: fetchProducts_def uniqueCategories_def)
  have "set (categories (snd (fetchProducts r s)))
       = {c. c \<noteq> [] \<and> (\<exists>p\<in>set ps. category p = Some c)}"
    unfolding cats Array_from_Set_set by (rule truthy_categories)
  moreover have "distinct (categories (snd (fetchProducts r s)))"
    unfolding cats by (rule Array_from_Set_distinct)
  ultimately show "products (snd (fetchProducts r s)) = ps \<and>
     set (categories (snd (fetchProducts r s)))
       = {c. c \<noteq> [] \<and> (\<exists>p\<in>set ps. category p = Some c)} \<and>
     distinct (categories (snd (fetchProducts r s)))"
    using prods by (intro conjI)
qed

theorem fetchProducts_success_witness:
  "categories (snd (fetchProducts fetched Index_initial)) = [''Sports''] \<and>
   set (categories (snd (fetchProducts fetched Index_initial)))
     = {c. c \<noteq> [] \<and>
          (\<exists>p\<in>set [yogaMat, headphones\<lparr>category := None\<rparr>, runningShoes\<lparr>category := Some []\<rparr>, yogaMat].
             category p = Some c)} \<and>
   products (snd (fetchProducts fetched Index_initial))
     = [yogaMat, headphones\<lparr>category := None\<rparr>, runningShoes\<lparr>category := Some []\<rparr>, yogaMat]"
proof -
  have ok: "error fetched = None \<and>
    data fetched = Some [yogaMat, headphones\<lparr>category := None\<rparr>, runningShoes\<lparr>category := Some []\<rparr>, yogaMat]"
    by (simp add: fetched_def)
  have ev: "categories (snd (fetchProducts fetched Index_initial)) = [''Sports'']"
    by (simp add: fetched_def fetchProducts_def uniqueCategories_def Array_from_Set_def Set_add_def
        Boolean_str_def yogaMat_def)
  from fetchProducts_success [of fetched _ Index_initial] ok ev
  show ?thesis by blast
qed


text \<open>
  Claim C7. The single-row lookup of the detail page, for a non-empty route
  parameter, tells three outcomes apart. A query failure gives the toast
  \<^verbatim>\<open>"Failed to load product"\<close> and a console message, navigates nowhere, and only
  clears the loading flag. A lookup without error and without row gives the
  toast \<^verbatim>\<open>"Product not found"\<close> and navigates to \<^verbatim>\<open>"/"\<close>; the state is otherwise
  untouched, so from the initial state the page shows its not-found view, not a
  detail view. A row that arrives is shown in the detail view, with no toast and
  no navigation.
\<close>

theorem fetchProduct_outcomes:
  "i \<noteq> [] \<longrightarrow>
     (error r = Some e \<longrightarrow>
        fst (fetchProduct (Some i) r s)
          = [ToastError ''Failed to load product'', ConsoleError ''Error fetching product:'' e] \<and>
        (\<forall>path. Navigate path \<notin> set (fst (fetchProduct (Some i) r s))) \<and>
        snd (fetchProduct (Some i) r s) = s\<lparr>ProductDetail_state.loading := False\<rparr>) \<and>
     (error r = None \<and> data r = None \<longrightarrow>
        fst (fetchProduct (Some i) r s) = [ToastError ''Product not found'', Navigate ''/''] \<and>
        snd (fetchProduct (Some i) r s) = s\<lparr>ProductDetail_state.loading := False\<rparr> \<and>
        render (snd (fetchProduct (Some i) r ProductDetail_initial)) = NotFoundView) \<and>
     (error r = None \<and> data r = Some p \<longrightarrow>
        fst (fetchProduct (Some i) r s) = [] \<and>
        render (snd (fetchProduct (Some i) r s)) = DetailView p)"
proof (intro impI conjI allI)
  assume i: "i \<noteq> []" and e: "error r = Some e"
  then show "fst (fetchProduct (Some i) r s)
          = [ToastError ''Failed to load product'', ConsoleError ''Error fetching product:'' e]"
    and "snd (fetchProduct (Some i) r s) = s\<lparr>ProductDetail_state.loading := False\<rparr>"
    by (simp_all add: fetchProduct_def)
  show "Navigate path \<notin> set (fst (fetchProduct (Some i) r s))" for path
    using i e by (simp add: fetchProduct_def)
next
  assume i: "i \<noteq> []" and n: "error r = None \<and> data r = None"
  then show "fst (fetchProduct (Some i) r s) = [ToastError ''Product not found'', Navigate ''/'']"
    and "snd (fetchProduct (Some i) r s) = s\<lparr>ProductDetail_state.loading := False\<rparr>"
    and "render (snd (fetchProduct (Some i) r ProductDetail_initial)) = NotFoundView"
    by (simp_all add: fetchProduct_def render_def ProductDetail_initial_def)
next
  assume i: "i \<noteq> []" and d: "error r = None \<and> data r = Some p"
  then show "fst (fetchProduct (Some i) r s) = []"
    and "render (snd (fetchProduct (Some i) r s)) = DetailView p"
    by (simp_all add: fetchProduct_def render_def)
qed

theorem fetchProduct_outcomes_witness:
  "fst (fetchProduct (Some ''id-mat'') \<lparr>data = None, error = Some ''timeout''\<rparr> ProductDetail_initial)
     = [ToastError ''Failed to load product'', ConsoleError ''Error fetching product:'' ''timeout''] \<and>
   fst (fetchProduct (Some ''id-gone'') \<lparr>data = None, error = None\<rparr> ProductDetail_initial)
     = [ToastError ''Product not found'', Navigate ''/''] \<and>
   render (snd (fetchProduct (Some ''id-mat'') \<lparr>data = Some yogaMat, error = None\<rparr> ProductDetail_initial))
     = DetailView yogaMat"
proof -
  have a: "''id-mat'' \<noteq> []" "error \<lparr>data = None :: Product option, error = Some ''timeout''\<rparr> = Some ''timeout''"
    by simp_all
  have b: "''id-gone'' \<noteq> []"
    "error \<lparr>data = None :: Product option, error = None\<rparr> = None \<and>
     data \<lparr>data = None :: Product option, error = None\<rparr> = None"
    by simp_all
  have c: "error \<lparr>data = Some yogaMat, error = None\<rparr> = None \<and>
     data \<lparr>data = Some yogaMat, error = None\<rparr> = Some yogaMat"
    by simp
  from fetchProduct_outcomes [of "''id-mat''" "\<lparr>data = None, error = Some ''timeout''\<rparr>" "''timeout''"
      ProductDetail_initial] a
  have "fst (fetchProduct (Some ''id-mat'') \<lparr>data = None, error = Some ''timeout''\<rparr> ProductDetail_initial)
     = [ToastError ''Failed to load product'', ConsoleError ''Error fetching product:'' ''timeout'']"
    by blast
  moreover
  from fetchProduct_outcomes [of "''id-gone''" "\<lparr>data = None, error = None\<rparr>" _ ProductDetail_initial] b
  have "fst (fetchProduct (Some ''id-gone'') \<lparr>data = None, error = None\<rparr> ProductDetail_initial)
     = [ToastError ''Product not found'', Navigate ''/'']"
    by blast
  moreover
  from fetchProduct_outcomes [of "''id-mat''" "\<lparr>data = Some yogaMat, error = None\<rparr>" _
      ProductDetail_initial yogaMat] a(1) c
  have "render (snd (fetchProduct (Some ''id-mat'') \<lparr>data = Some yogaMat, error = None\<rparr> ProductDetail_initial))
     = DetailView yogaMat"
    by blast
  ultimately show ?thesis
    by (intro conjI)
qed

end
